theory Spec2Isabelle
  imports Complex_Main
begin

section \<open>The mouse trail effect of \<^verbatim>\<open>assets/js/main.js\<close> (section 9)\<close>

text \<open>
  The trail module is the top-level code at the end of \<^verbatim>\<open>main.js\<close>: it looks up the
  canvas, sizes it to the window, keeps the array \<^verbatim>\<open>points\<close> and the time stamp
  \<^verbatim>\<open>lastMove\<close>, appends a point on every \<^verbatim>\<open>mousemove\<close> and repaints the trail in
  \<^verbatim>\<open>draw\<close>, which reschedules itself with \<^verbatim>\<open>requestAnimationFrame\<close>. The
  repository holds a second, more heavily commented copy of the script; its trail code
  is the same, statement for statement.

  Modelling decisions.
  \<^item> A JavaScript number is modelled as an exact \<^typ>\<open>real\<close>: the rounding of IEEE
    doubles is not modelled. Array lengths, loop indices and canvas dimensions are
    \<^typ>\<open>nat\<close>.
  \<^item> The module's variables (\<^verbatim>\<open>canvas.width\<close>, \<^verbatim>\<open>canvas.height\<close>, \<^verbatim>\<open>points\<close>,
    \<^verbatim>\<open>lastMove\<close>) are the fields of the record \<open>trail\<close>; every handler takes the
    state and returns the new one.
  \<^item> \<^verbatim>\<open>performance.now()\<close> is an input \<open>now\<close> of the handler that reads it.
  \<^item> The calls on the 2D context and on \<^verbatim>\<open>window\<close> are returned as a list of
    \<open>effect\<close>s, in the order in which the code issues them.
  \<^item> An uncaught exception is the value \<open>Inl\<close> of a sum type.
\<close>

subsection \<open>Data\<close>

text \<open>The object \<^verbatim>\<open>{ x: e.clientX, y: e.clientY }\<close>; the fields are called \<open>px\<close> and
  \<open>py\<close> here, so that \<open>x\<close> and \<open>y\<close> stay free for variables.\<close>

record point =
  px :: real
  py :: real

text \<open>What the handlers read of a \<^verbatim>\<open>MouseEvent\<close> and of \<^verbatim>\<open>window\<close>.\<close>

record mouse_event =
  clientX :: real
  clientY :: real

record window =
  innerWidth :: nat
  innerHeight :: nat

text \<open>The state of the module.\<close>

record trail =
  canvas_width :: nat
  canvas_height :: nat
  points :: "point list"
  lastMove :: real

text \<open>The observable calls. \<open>StrokeStyle r g b a\<close> is the assignment of the string
  \<^verbatim>\<open>rgba(r, g, b, a)\<close> to \<^verbatim>\<open>ctx.strokeStyle\<close>.\<close>

datatype effect =
    AddEventListener string
  | RequestAnimationFrame
  | ClearRect real real real real
  | LineWidth real
  | LineCap string
  | StrokeStyle nat nat nat real
  | BeginPath
  | MoveTo real real
  | LineTo real real
  | Stroke

datatype js_error = TypeError

subsection \<open>Constants\<close>

definition maxTrail :: nat where
  "maxTrail = 30"

definition trailIdleTimeout :: real where
  "trailIdleTimeout = 100"

definition trailFadeDuration :: real where
  "trailFadeDuration = 250"

subsection \<open>Handlers\<close>

text \<open>\<^verbatim>\<open>function resize() { canvas.width = window.innerWidth;
  canvas.height = window.innerHeight; }\<close>\<close>

definition resize :: "window \<Rightarrow> trail \<Rightarrow> trail" where
  "resize w s = s\<lparr>canvas_width := innerWidth w, canvas_height := innerHeight w\<rparr>"

text \<open>The \<^verbatim>\<open>mousemove\<close> listener: \<^verbatim>\<open>lastMove = performance.now();
  points.push({...}); if (points.length > maxTrail) points.shift();\<close>
  \<^verbatim>\<open>shift\<close> removes the first element.\<close>

definition mousemove :: "real \<Rightarrow> mouse_event \<Rightarrow> trail \<Rightarrow> trail" where
  "mousemove now e s =
     (let s1 = s\<lparr>lastMove := now\<rparr>;
          s2 = s1\<lparr>points := points s1 @ [\<lparr>px = clientX e, py = clientY e\<rparr>]\<rparr>
      in if length (points s2) > maxTrail then s2\<lparr>points := tl (points s2)\<rparr> else s2)"

text \<open>The fade computation of \<^verbatim>\<open>draw\<close>:
  \<^verbatim>\<open>let fadeProgress = 0; if (idle > trailIdleTimeout) fadeProgress =
  Math.min((idle - trailIdleTimeout) / trailFadeDuration, 1);\<close>\<close>

definition fadeProgress :: "real \<Rightarrow> real" where
  "fadeProgress idle =
     (if idle > trailIdleTimeout
      then min ((idle - trailIdleTimeout) / trailFadeDuration) 1
      else 0)"

text \<open>One pass of the body of the \<^verbatim>\<open>for\<close> loop of \<^verbatim>\<open>draw\<close>, for the index \<open>i\<close>.\<close>

definition segment :: "point list \<Rightarrow> real \<Rightarrow> nat \<Rightarrow> effect list" where
  "segment pts fp i =
     (let p1 = pts ! (i - 1);
          p2 = pts ! i;
          baseAlpha = real i / real (length pts);
          alpha = baseAlpha * (1 - fp)
      in [StrokeStyle 255 0 0 alpha, BeginPath,
          MoveTo (px p1) (py p1), LineTo (px p2) (py p2), Stroke])"

text \<open>\<^verbatim>\<open>for (let i = 1; i < points.length; i++) { ... }\<close>, from the index \<open>i\<close> on. The
  loop starts at 1, so both reads are in range.\<close>

function stroke_loop :: "nat \<Rightarrow> point list \<Rightarrow> real \<Rightarrow> effect list" where
  "stroke_loop i pts fp =
     (if i < length pts then segment pts fp i @ stroke_loop (i + 1) pts fp else [])"
  by pat_completeness auto
termination
  by (relation "measure (\<lambda>(i, pts, fp). length pts - i)") auto

text \<open>\<^verbatim>\<open>function draw()\<close>. Both early \<^verbatim>\<open>return\<close>s are branches; the second one empties
  \<^verbatim>\<open>points\<close>.\<close>

definition draw :: "real \<Rightarrow> trail \<Rightarrow> trail \<times> effect list" where
  "draw now s =
     (let pre = [RequestAnimationFrame,
                 ClearRect 0 0 (real (canvas_width s)) (real (canvas_height s))]
      in if length (points s) < 2 then (s, pre)
         else
           let idle = now - lastMove s;
               fp = fadeProgress idle
           in if fp \<ge> 1 then (s\<lparr>points := []\<rparr>, pre)
              else (s, pre @ [LineWidth 8, LineCap ''round'']
                         @ stroke_loop 1 (points s) fp))"

text \<open>The top-level statements of the module, run once when the script is loaded.
  \<open>doc\<close> is \<^verbatim>\<open>document.getElementById\<close>: it gives the width and height of the
  element with that id, or \<open>None\<close> for JavaScript's \<^verbatim>\<open>null\<close>. The second statement,
  \<^verbatim>\<open>canvas.getContext("2d")\<close>, is a property read on \<^verbatim>\<open>canvas\<close>: on \<^verbatim>\<open>null\<close> it throws
  a \<^verbatim>\<open>TypeError\<close>, which nothing catches, and the rest of the script does not run.
  \<open>now\<close> is the time read for \<^verbatim>\<open>lastMove\<close>; the call of \<^verbatim>\<open>draw\<close> that ends the script
  finds the buffer empty and returns before it reads the clock.\<close>

definition trail_init ::
    "(string \<Rightarrow> (nat \<times> nat) option) \<Rightarrow> window \<Rightarrow> real \<Rightarrow> js_error + trail \<times> effect list" where
  "trail_init doc w now =
     (case doc ''trailCanvas'' of
        None \<Rightarrow> Inl TypeError
      | Some (cw, ch) \<Rightarrow>
          let s0 = resize w \<lparr>canvas_width = cw, canvas_height = ch, points = [], lastMove = now\<rparr>;
              (s1, effs) = draw now s0
          in Inr (s1, [AddEventListener ''resize'', AddEventListener ''mousemove''] @ effs))"

subsection \<open>Sequences of events\<close>

text \<open>A sequence of \<^verbatim>\<open>mousemove\<close> events, each with the time at which it is handled,
  and a sequence of frames, each with the time that \<^verbatim>\<open>draw\<close> reads.\<close>

fun mousemoves :: "(real \<times> mouse_event) list \<Rightarrow> trail \<Rightarrow> trail" where
  "mousemoves [] s = s"
| "mousemoves ((now, e) # es) s = mousemoves es (mousemove now e s)"

fun draws :: "real list \<Rightarrow> trail \<Rightarrow> trail" where
  "draws [] s = s"
| "draws (now # nows) s = draws nows (fst (draw now s))"

definition point_of :: "real \<times> mouse_event \<Rightarrow> point" where
  "point_of ne = \<lparr>px = clientX (snd ne), py = clientY (snd ne)\<rparr>"

text \<open>The number of \<^verbatim>\<open>ctx.stroke()\<close> calls in a trace.\<close>

definition draw_calls :: "effect list \<Rightarrow> nat" where
  "draw_calls effs = length (filter (\<lambda>e. e = Stroke) effs)"

subsection \<open>The fade computation as the specification words it\<close>

definition clamp :: "real \<Rightarrow> real \<Rightarrow> real \<Rightarrow> real" where
  "clamp v lo hi = max lo (min v hi)"

definition fadeProgress_spec :: "real \<Rightarrow> real" where
  "fadeProgress_spec idle = clamp ((idle - trailIdleTimeout) / trailFadeDuration) 0 1"

section \<open>Auxiliary facts\<close>

lemma fadeProgress_nonneg: "0 \<le> fadeProgress idle"
  by (simp add: fadeProgress_def trailIdleTimeout_def trailFadeDuration_def)

lemma fadeProgress_le_one: "fadeProgress idle \<le> 1"
  by (simp add: fadeProgress_def)

lemma fadeProgress_full:
  "trailIdleTimeout + trailFadeDuration \<le> idle \<Longrightarrow> fadeProgress idle = 1"
  by (simp add: fadeProgress_def trailIdleTimeout_def trailFadeDuration_def)

lemma stroke_loop_concat:
  "stroke_loop i pts fp = concat (map (segment pts fp) [i..<length pts])"
proof (induction i pts fp rule: stroke_loop.induct)
  case (1 i pts fp)
  show ?case
  proof (cases "i < length pts")
    case True
    then have "[i..<length pts] = i # [i + 1..<length pts]"
      by (simp add: upt_conv_Cons)
    with True "1.IH" show ?thesis
      by (subst stroke_loop.simps) simp
  next
    case False
    then show ?thesis
      by (subst stroke_loop.simps) simp
  qed
qed

subsection \<open>The buffer under \<^verbatim>\<open>mousemove\<close>\<close>

lemma points_mousemove:
  "points (mousemove now e s) =
     (if maxTrail \<le> length (points s)
      then tl (points s @ [\<lparr>px = clientX e, py = clientY e\<rparr>])
      else points s @ [\<lparr>px = clientX e, py = clientY e\<rparr>])"
  by (simp add: mousemove_def Let_def)

lemma length_points_mousemove:
  "length (points s) \<le> maxTrail \<Longrightarrow> length (points (mousemove now e s)) \<le> maxTrail"
  by (simp add: points_mousemove)

lemma points_mousemoves:
  "length (points s) \<le> maxTrail \<Longrightarrow>
   points (mousemoves es s) =
     drop (length (points s) + length es - maxTrail) (points s @ map point_of es)"
proof (induction es arbitrary: s)
  case Nil
  then show ?case by simp
next
  case (Cons ne es)
  obtain now e where ne: "ne = (now, e)" by (cases ne)
  let ?p = "\<lparr>px = clientX e, py = clientY e\<rparr>"
  have pt: "point_of (now, e) = ?p" by (simp add: point_of_def)
  have len: "length (points (mousemove now e s)) \<le> maxTrail"
    using Cons.prems by (rule length_points_mousemove)
  note IH = Cons.IH [OF len]
  show ?case
  proof (cases "maxTrail \<le> length (points s)")
    case True
    with Cons.prems have eq: "length (points s) = maxTrail" by simp
    then have ne_nil: "points s \<noteq> []" by (auto simp: maxTrail_def)
    have step: "points (mousemove now e s) = tl (points s) @ [?p]"
      using True ne_nil by (simp add: points_mousemove)
    have len': "length (points (mousemove now e s)) = maxTrail"
      using eq ne_nil by (cases "points s") (simp_all add: step)
    have "points (mousemoves (ne # es) s) = points (mousemoves es (mousemove now e s))"
      by (simp add: ne)
    also have "\<dots> = drop (length es) (points (mousemove now e s) @ map point_of es)"
      using IH unfolding len' by (simp only: add_diff_cancel_left')
    also have "\<dots> = drop (length es) ((tl (points s) @ [?p]) @ map point_of es)"
      by (simp only: step)
    also have "\<dots> = drop (Suc (length es)) (points s @ ?p # map point_of es)"
      using ne_nil by (cases "points s") simp_all
    also have "\<dots> = drop (length (points s) + length (ne # es) - maxTrail)
        (points s @ map point_of (ne # es))"
      by (simp add: eq ne pt)
    finally show ?thesis .
  next
    case False
    then have "points (mousemove now e s) = points s @ [?p]"
      by (simp add: points_mousemove)
    then show ?thesis
      using IH False by (simp add: ne pt)
  qed
qed

subsection \<open>The three branches of \<^verbatim>\<open>draw\<close>\<close>

lemma draw_short:
  "length (points s) < 2 \<Longrightarrow>
   draw now s = (s, [RequestAnimationFrame,
      ClearRect 0 0 (real (canvas_width s)) (real (canvas_height s))])"
  by (simp add: draw_def)

lemma draw_faded:
  "2 \<le> length (points s) \<Longrightarrow> 1 \<le> fadeProgress (now - lastMove s) \<Longrightarrow>
   draw now s = (s\<lparr>points := []\<rparr>, [RequestAnimationFrame,
      ClearRect 0 0 (real (canvas_width s)) (real (canvas_height s))])"
  by (simp add: draw_def Let_def)

lemma draw_visible:
  "2 \<le> length (points s) \<Longrightarrow> fadeProgress (now - lastMove s) < 1 \<Longrightarrow>
   draw now s = (s, [RequestAnimationFrame,
      ClearRect 0 0 (real (canvas_width s)) (real (canvas_height s)),
      LineWidth 8, LineCap ''round'']
      @ stroke_loop 1 (points s) (fadeProgress (now - lastMove s)))"
  by (simp add: draw_def Let_def)

lemma draw_visible_effects: 
  assumes "2 \<le> length (points s)" and "fadeProgress (now - lastMove s) < 1"
  shows "snd (draw now s) =
      [RequestAnimationFrame,
       ClearRect 0 0 (real (canvas_width s)) (real (canvas_height s)),
       LineWidth 8, LineCap ''round''] @
      concat (map (segment (points s) (fadeProgress (now - lastMove s))) [1..<length (points s)])"
  by (simp only: draw_visible [OF assms] stroke_loop_concat snd_conv)

lemma segment_eq: "segment pts fp = (\<lambda>i.
      [StrokeStyle 255 0 0 (real i / real (length pts) * (1 - fp)),
       BeginPath,
       MoveTo (px (pts ! (i - 1))) (py (pts ! (i - 1))),
       LineTo (px (pts ! i)) (py (pts ! i)),
       Stroke])"
  by (rule ext) (simp only: segment_def Let_def)

lemma draw_calls_segments:
  "draw_calls (concat (map (segment pts fp) is)) = length is"
  by (induction "is") (simp_all add: draw_calls_def segment_def Let_def)

lemma draws_short: "length (points s) < 2 \<Longrightarrow> draws nows s = s"
  by (induction nows) (simp_all add: draw_short)

lemma length_points_draw: "length (points (fst (draw now s))) \<le> length (points s)"
  by (simp add: draw_def Let_def)

lemma alpha_bounds:
  assumes "i < n" and "0 \<le> fp" and "fp \<le> 1"
  shows "0 \<le> real i / real n * (1 - fp) \<and> real i / real n * (1 - fp) \<le> 1"
proof
  from assms(1) have q: "0 \<le> real i / real n" "real i / real n \<le> 1"
    by simp_all
  from assms(2,3) have r: "0 \<le> 1 - fp" "1 - fp \<le> 1"
    by simp_all
  from q(1) r(1) show "0 \<le> real i / real n * (1 - fp)"
    by (rule mult_nonneg_nonneg)
  from q(2) r show "real i / real n * (1 - fp) \<le> 1"
    by (rule mult_le_one)
qed

text \<open>
  With the canvas in the page the script runs to its end: the canvas takes the size of
  the window, the buffer is empty, both listeners are registered and the first frame
  clears the canvas.
\<close>

lemma trail_init_with_canvas:
  "trail_init (\<lambda>i. if i = ''trailCanvas'' then Some (300, 150) else None) w now =
     Inr (\<lparr>canvas_width = innerWidth w, canvas_height = innerHeight w,
            points = [], lastMove = now\<rparr>,
          [AddEventListener ''resize'', AddEventListener ''mousemove'',
           RequestAnimationFrame,
           ClearRect 0 0 (real (innerWidth w)) (real (innerHeight w))])"
  by (simp add: trail_init_def resize_def draw_def)

section \<open>The claims\<close>

text \<open>
  Claim C1, as amended. At a call of \<^verbatim>\<open>draw\<close> with
  \<open>idle \<ge> trailIdleTimeout + trailFadeDuration\<close> the fade formula gives 1, and the call
  issues the frame request and the clear and nothing else: no \<^verbatim>\<open>stroke\<close>. It empties
  \<^verbatim>\<open>points\<close> when the buffer holds at least two points; with fewer than two points it
  returns at the length check, before the fade check, and \<^verbatim>\<open>points\<close> stays as it is.
\<close>

theorem draw_fully_faded:
  assumes "trailIdleTimeout + trailFadeDuration \<le> now - lastMove s"
  shows "fadeProgress (now - lastMove s) = 1 \<and>
         snd (draw now s) = [RequestAnimationFrame,
            ClearRect 0 0 (real (canvas_width s)) (real (canvas_height s))] \<and>
         draw_calls (snd (draw now s)) = 0 \<and>
         points (fst (draw now s)) = (if 2 \<le> length (points s) then [] else points s)"
proof -
  have fp: "fadeProgress (now - lastMove s) = 1"
    using assms by (rule fadeProgress_full)
  show ?thesis
  proof (cases "2 \<le> length (points s)")
    case True
    then show ?thesis
      using fp by (simp add: draw_faded draw_calls_def)
  next
    case False
    then show ?thesis
      using fp by (simp add: draw_short draw_calls_def)
  qed
qed

text \<open>
  The theorem at a buffer of two points, 351 ms after the last move (the buffer is
  emptied), and at a buffer of one point (the buffer is kept).
\<close>

theorem draw_fully_faded_witness:
  "trailIdleTimeout + trailFadeDuration \<le>
     356 - lastMove \<lparr>canvas_width = 800, canvas_height = 600,
       points = [\<lparr>px = 0, py = 0\<rparr>, \<lparr>px = 10, py = 0\<rparr>], lastMove = 5\<rparr> \<and>
   draw 356 \<lparr>canvas_width = 800, canvas_height = 600,
       points = [\<lparr>px = 0, py = 0\<rparr>, \<lparr>px = 10, py = 0\<rparr>], lastMove = 5\<rparr> =
     (\<lparr>canvas_width = 800, canvas_height = 600, points = [], lastMove = 5\<rparr>,
      [RequestAnimationFrame, ClearRect 0 0 800 600]) \<and>
   trailIdleTimeout + trailFadeDuration \<le>
     351 - lastMove \<lparr>canvas_width = 800, canvas_height = 600,
       points = [\<lparr>px = 0, py = 0\<rparr>], lastMove = 0\<rparr> \<and>
   draw 351 \<lparr>canvas_width = 800, canvas_height = 600,
       points = [\<lparr>px = 0, py = 0\<rparr>], lastMove = 0\<rparr> =
     (\<lparr>canvas_width = 800, canvas_height = 600,
        points = [\<lparr>px = 0, py = 0\<rparr>], lastMove = 0\<rparr>,
      [RequestAnimationFrame, ClearRect 0 0 800 600])"
  using
    draw_fully_faded [of 356 "\<lparr>canvas_width = 800, canvas_height = 600,
       points = [\<lparr>px = 0, py = 0\<rparr>, \<lparr>px = 10, py = 0\<rparr>], lastMove = 5\<rparr>"]
    draw_fully_faded [of 351 "\<lparr>canvas_width = 800, canvas_height = 600,
       points = [\<lparr>px = 0, py = 0\<rparr>], lastMove = 0\<rparr>"]
  by (simp add: trailIdleTimeout_def trailFadeDuration_def draw_def fadeProgress_def)

text \<open>
  Claim C1 as stated fails on its own scenario: one point is recorded at time 0 into an
  empty buffer and \<^verbatim>\<open>draw\<close> runs at time 351, that is
  \<open>trailIdleTimeout + trailFadeDuration + 1\<close> ms later. The buffer is not empty after the
  call: it still holds the point.
\<close>

theorem draw_single_point_counterexample:
  "trailIdleTimeout + trailFadeDuration \<le>
     351 - lastMove (mousemove 0 \<lparr>clientX = 0, clientY = 0\<rparr>
        \<lparr>canvas_width = 800, canvas_height = 600, points = [], lastMove = 0\<rparr>) \<and>
   points (fst (draw 351 (mousemove 0 \<lparr>clientX = 0, clientY = 0\<rparr>
        \<lparr>canvas_width = 800, canvas_height = 600, points = [], lastMove = 0\<rparr>)))
     = [\<lparr>px = 0, py = 0\<rparr>] \<and>
   points (fst (draw 351 (mousemove 0 \<lparr>clientX = 0, clientY = 0\<rparr>
        \<lparr>canvas_width = 800, canvas_height = 600, points = [], lastMove = 0\<rparr>)))
     \<noteq> []"
  by (simp add: trailIdleTimeout_def trailFadeDuration_def draw_def mousemove_def maxTrail_def)

text \<open>
  Claim C2. From a buffer within the bound, after any sequence of \<^verbatim>\<open>mousemove\<close>
  events the buffer is within the bound \<open>maxTrail\<close>, and it is the last \<open>maxTrail\<close>
  elements of the old buffer followed by the new points in the order of their events:
  the oldest points are dropped from the front.
\<close>

theorem trail_buffer_bounded_fifo:
  assumes "length (points s) \<le> maxTrail"
  shows "length (points (mousemoves es s)) \<le> maxTrail \<and>
         length (points (mousemoves es s)) = min maxTrail (length (points s) + length es) \<and>
         points (mousemoves es s) =
           drop (length (points s) + length es - maxTrail) (points s @ map point_of es)"
proof -
  note eq = points_mousemoves [OF assms, of es]
  have "length (points (mousemoves es s)) =
      length (points s) + length es - (length (points s) + length es - maxTrail)"
    by (simp only: eq length_drop length_append length_map)
  then have "length (points (mousemoves es s)) = min maxTrail (length (points s) + length es)"
    by arith
  with eq show ?thesis
    by simp
qed

text \<open>
  The scenario of the claim: 35 points recorded into the empty buffer leave exactly the
  points 5 to 34, in order.
\<close>

theorem trail_buffer_bounded_fifo_witness:
  "length (points \<lparr>canvas_width = 800, canvas_height = 600, points = [], lastMove = 0\<rparr>)
     \<le> maxTrail \<and>
   points (mousemoves (map (\<lambda>i. (real i, \<lparr>clientX = real i, clientY = 0\<rparr>)) [0..<35])
      \<lparr>canvas_width = 800, canvas_height = 600, points = [], lastMove = 0\<rparr>)
     = map (\<lambda>i. \<lparr>px = real i, py = 0\<rparr>) [5..<35]"
  using trail_buffer_bounded_fifo [of
      "\<lparr>canvas_width = 800, canvas_height = 600, points = [], lastMove = 0\<rparr>"
      "map (\<lambda>i. (real i, \<lparr>clientX = real i, clientY = 0\<rparr>)) [0..<35]"]
  by (simp add: maxTrail_def point_of_def drop_map comp_def)

text \<open>
  Claim C3 does not hold of the code. In a page without an element of id
  \<^verbatim>\<open>trailCanvas\<close>, \<^verbatim>\<open>getElementById\<close> returns \<^verbatim>\<open>null\<close> and the next statement,
  \<^verbatim>\<open>canvas.getContext("2d")\<close>, throws a \<^verbatim>\<open>TypeError\<close>: the script ends with an
  uncaught exception, not silently. The module has no check of \<^verbatim>\<open>canvas\<close>, where
  \<^verbatim>\<open>initProjectFilters\<close> of the same file returns early on a missing element.
\<close>

theorem trail_init_without_canvas:
  "trail_init (\<lambda>id. None) \<lparr>innerWidth = 800, innerHeight = 600\<rparr> 0 = Inl TypeError"
  by (simp add: trail_init_def)

text \<open>
  Claim C4. A call of \<^verbatim>\<open>draw\<close> that draws (at least two points, fade progress below 1)
  issues, after the frame request, the clear, the line width and the line cap, one group
  of calls per index \<open>i\<close> from 1 to \<open>length - 1\<close>, in this order: the stroke style with
  opacity \<open>(i / length) * (1 - fadeProgress)\<close>, then the path from \<open>points[i - 1]\<close> to
  \<open>points[i]\<close> and its stroke. There are \<open>length - 1\<close> strokes, and every opacity is
  between 0 and 1.
\<close>

theorem draw_segment_alpha:
  assumes "2 \<le> length (points s)" and "fadeProgress (now - lastMove s) < 1"
  shows "snd (draw now s) =
           [RequestAnimationFrame,
            ClearRect 0 0 (real (canvas_width s)) (real (canvas_height s)),
            LineWidth 8, LineCap ''round''] @
           concat (map (\<lambda>i.
              [StrokeStyle 255 0 0
                 (real i / real (length (points s)) * (1 - fadeProgress (now - lastMove s))),
               BeginPath,
               MoveTo (px (points s ! (i - 1))) (py (points s ! (i - 1))),
               LineTo (px (points s ! i)) (py (points s ! i)),
               Stroke]) [1..<length (points s)]) \<and>
         draw_calls (snd (draw now s)) = length (points s) - 1 \<and>
         (\<forall>i \<in> {1..<length (points s)}.
            0 \<le> real i / real (length (points s)) * (1 - fadeProgress (now - lastMove s)) \<and>
            real i / real (length (points s)) * (1 - fadeProgress (now - lastMove s)) \<le> 1)"
proof -
  let ?fp = "fadeProgress (now - lastMove s)"
  note e = draw_visible_effects [OF assms]
  have "draw_calls (snd (draw now s)) =
      draw_calls [RequestAnimationFrame,
       ClearRect 0 0 (real (canvas_width s)) (real (canvas_height s)),
       LineWidth 8, LineCap ''round'']
      + draw_calls (concat (map (segment (points s) ?fp) [1..<length (points s)]))"
    unfolding e by (simp only: draw_calls_def filter_append length_append)
  also have "\<dots> = length [1..<length (points s)]"
    by (simp only: draw_calls_segments) (simp add: draw_calls_def)
  finally have calls: "draw_calls (snd (draw now s)) = length (points s) - 1"
    by simp
  have bounds: "\<forall>i \<in> {1..<length (points s)}.
      0 \<le> real i / real (length (points s)) * (1 - ?fp) \<and>
      real i / real (length (points s)) * (1 - ?fp) \<le> 1"
  proof
    fix i
    assume "i \<in> {1..<length (points s)}"
    then have "i < length (points s)"
      by simp
    then show "0 \<le> real i / real (length (points s)) * (1 - ?fp) \<and>
      real i / real (length (points s)) * (1 - ?fp) \<le> 1"
      using fadeProgress_nonneg fadeProgress_le_one by (rule alpha_bounds)
  qed
  show ?thesis
    by (rule conjI [OF e [unfolded segment_eq] conjI [OF calls bounds]])
qed

text \<open>
  The scenario of the claim: the points (0,0), (10,0), (20,0) recorded at the times 0, 5
  and 10, and a frame at time 10. The fade progress is 0 and two segments are stroked,
  with the opacities 1/3 and 2/3.
\<close>

theorem draw_segment_alpha_witness:
  "2 \<le> length (points (mousemoves
       [(0, \<lparr>clientX = 0, clientY = 0\<rparr>), (5, \<lparr>clientX = 10, clientY = 0\<rparr>),
        (10, \<lparr>clientX = 20, clientY = 0\<rparr>)]
       \<lparr>canvas_width = 800, canvas_height = 600, points = [], lastMove = 0\<rparr>)) \<and>
   fadeProgress (10 - lastMove (mousemoves
       [(0, \<lparr>clientX = 0, clientY = 0\<rparr>), (5, \<lparr>clientX = 10, clientY = 0\<rparr>),
        (10, \<lparr>clientX = 20, clientY = 0\<rparr>)]
       \<lparr>canvas_width = 800, canvas_height = 600, points = [], lastMove = 0\<rparr>)) = 0 \<and>
   snd (draw 10 (mousemoves
       [(0, \<lparr>clientX = 0, clientY = 0\<rparr>), (5, \<lparr>clientX = 10, clientY = 0\<rparr>),
        (10, \<lparr>clientX = 20, clientY = 0\<rparr>)]
       \<lparr>canvas_width = 800, canvas_height = 600, points = [], lastMove = 0\<rparr>)) =
     [RequestAnimationFrame, ClearRect 0 0 800 600, LineWidth 8, LineCap ''round'',
      StrokeStyle 255 0 0 (1 / 3), BeginPath, MoveTo 0 0, LineTo 10 0, Stroke,
      StrokeStyle 255 0 0 (2 / 3), BeginPath, MoveTo 10 0, LineTo 20 0, Stroke]"
proof -
  let ?s = "\<lparr>canvas_width = 800, canvas_height = 600,
    points = [\<lparr>px = 0, py = 0\<rparr>, \<lparr>px = 10, py = 0\<rparr>, \<lparr>px = 20, py = 0\<rparr>],
    lastMove = 10\<rparr>"
  have s: "mousemoves
       [(0, \<lparr>clientX = 0, clientY = 0\<rparr>), (5, \<lparr>clientX = 10, clientY = 0\<rparr>),
        (10, \<lparr>clientX = 20, clientY = 0\<rparr>)]
       \<lparr>canvas_width = 800, canvas_height = 600, points = [], lastMove = 0\<rparr> = ?s"
    by (simp add: mousemove_def maxTrail_def)
  have up: "[1..<3] = [1, 2::nat]"
    by (simp add: upt_rec)
  have "2 \<le> length (points ?s)" and "fadeProgress (10 - lastMove ?s) < 1"
    by (simp_all add: fadeProgress_def trailIdleTimeout_def)
  from draw_segment_alpha [OF this] show ?thesis
    unfolding s by (simp add: fadeProgress_def trailIdleTimeout_def up)
qed

text \<open>
  Claim C5. The fade progress that \<^verbatim>\<open>draw\<close> computes is the clamp of
  \<open>(idle - trailIdleTimeout) / trailFadeDuration\<close> to the interval from 0 to 1; it is 0
  when \<open>idle \<le> trailIdleTimeout\<close> and 1 when
  \<open>idle \<ge> trailIdleTimeout + trailFadeDuration\<close>.
\<close>

theorem fadeProgress_clamp:
  "fadeProgress idle = fadeProgress_spec idle \<and>
   (idle \<le> trailIdleTimeout \<longrightarrow> fadeProgress idle = 0) \<and>
   (trailIdleTimeout + trailFadeDuration \<le> idle \<longrightarrow> fadeProgress idle = 1)"
proof (intro conjI impI)
  show "fadeProgress idle = fadeProgress_spec idle"
    by (simp add: fadeProgress_def fadeProgress_spec_def clamp_def
        trailIdleTimeout_def trailFadeDuration_def min_def max_def)
  show "fadeProgress idle = 0" if "idle \<le> trailIdleTimeout"
    using that by (simp add: fadeProgress_def)
  show "fadeProgress idle = 1" if "trailIdleTimeout + trailFadeDuration \<le> idle"
    using that by (rule fadeProgress_full)
qed

text \<open>
  The theorem at the idle times 50 (before the fade), 400 (after it) and 225 (half way).
\<close>

theorem fadeProgress_clamp_witness:
  "(50 \<le> trailIdleTimeout \<and> fadeProgress 50 = 0 \<and> fadeProgress_spec 50 = 0) \<and>
   (trailIdleTimeout + trailFadeDuration \<le> 400 \<and> fadeProgress 400 = 1
      \<and> fadeProgress_spec 400 = 1) \<and>
   (fadeProgress 225 = 1 / 2 \<and> fadeProgress_spec 225 = 1 / 2)"
  using fadeProgress_clamp [of 50] fadeProgress_clamp [of 400] fadeProgress_clamp [of 225]
  by (simp add: trailIdleTimeout_def trailFadeDuration_def fadeProgress_def)

text \<open>
  Claim C6. The fade progress is monotonically non-decreasing in the idle time.
\<close>

theorem fadeProgress_mono:
  assumes "idle1 \<le> idle2"
  shows "fadeProgress idle1 \<le> fadeProgress idle2"
  using assms
  by (auto simp add: fadeProgress_def trailIdleTimeout_def trailFadeDuration_def min_def)

theorem fadeProgress_mono_witness:
  "(150::real) \<le> 200 \<and> fadeProgress 150 = 1 / 5 \<and> fadeProgress 200 = 2 / 5 \<and>
   fadeProgress 150 \<le> fadeProgress 200"
  using fadeProgress_mono [of 150 200]
  by (simp add: fadeProgress_def trailIdleTimeout_def trailFadeDuration_def)

text \<open>
  Claim C7. Every call of \<^verbatim>\<open>draw\<close> clears the whole canvas, the rectangle from (0, 0)
  of the canvas's width and height, before it reads the buffer and before any other call
  on the drawing context; the only call before the clear is the request for the next
  frame, which does not touch the canvas. With fewer than two points the call ends
  there: no stroke, and the state is unchanged.
\<close>

theorem draw_clears_first:
  "(\<exists>rest. snd (draw now s) =
      RequestAnimationFrame #
      ClearRect 0 0 (real (canvas_width s)) (real (canvas_height s)) # rest) \<and>
   (length (points s) < 2 \<longrightarrow>
      snd (draw now s) = [RequestAnimationFrame,
        ClearRect 0 0 (real (canvas_width s)) (real (canvas_height s))] \<and>
      draw_calls (snd (draw now s)) = 0 \<and>
      fst (draw now s) = s)"
  by (simp add: draw_def Let_def draw_calls_def)

theorem draw_clears_first_witness:
  "length (points \<lparr>canvas_width = 800, canvas_height = 600,
      points = [\<lparr>px = 3, py = 4\<rparr>], lastMove = 0\<rparr>) < 2 \<and>
   draw 7 \<lparr>canvas_width = 800, canvas_height = 600,
      points = [\<lparr>px = 3, py = 4\<rparr>], lastMove = 0\<rparr> =
     (\<lparr>canvas_width = 800, canvas_height = 600,
        points = [\<lparr>px = 3, py = 4\<rparr>], lastMove = 0\<rparr>,
      [RequestAnimationFrame, ClearRect 0 0 800 600])"
  using draw_clears_first [of 7 "\<lparr>canvas_width = 800, canvas_height = 600,
      points = [\<lparr>px = 3, py = 4\<rparr>], lastMove = 0\<rparr>"]
  by (simp add: prod_eq_iff)

text \<open>
  Claim C8. After \<^verbatim>\<open>resize\<close> the canvas has the window's inner width and height, and
  \<^verbatim>\<open>points\<close> and \<^verbatim>\<open>lastMove\<close> are unchanged. The frame after the resize clears the
  canvas at its new size and then does what it would have done without the resize: the
  same calls after the clear, and the same buffer and time stamp afterwards.
\<close>

theorem resize_effect:
  "canvas_width (resize w s) = innerWidth w \<and>
   canvas_height (resize w s) = innerHeight w \<and>
   points (resize w s) = points s \<and>
   lastMove (resize w s) = lastMove s \<and>
   points (fst (draw now (resize w s))) = points (fst (draw now s)) \<and>
   lastMove (fst (draw now (resize w s))) = lastMove (fst (draw now s)) \<and>
   drop 2 (snd (draw now (resize w s))) = drop 2 (snd (draw now s)) \<and>
   take 2 (snd (draw now (resize w s))) =
     [RequestAnimationFrame, ClearRect 0 0 (real (innerWidth w)) (real (innerHeight w))]"
  by (simp add: resize_def draw_def Let_def)

text \<open>
  Claim C9. The \<^verbatim>\<open>mousemove\<close> listener sets \<^verbatim>\<open>lastMove\<close> to the current time and
  appends the point of the event at the end of \<^verbatim>\<open>points\<close>; it removes the oldest
  point exactly when the buffer was already full. Nothing else of the state changes.
  The listener is a total function of the state: it has no result besides the new state
  and no error branch.
\<close>

theorem mousemove_effect:
  "mousemove now e s =
     s\<lparr>lastMove := now,
       points := (if length (points s) < maxTrail
                  then points s @ [\<lparr>px = clientX e, py = clientY e\<rparr>]
                  else tl (points s) @ [\<lparr>px = clientX e, py = clientY e\<rparr>])\<rparr> \<and>
   lastMove (mousemove now e s) = now \<and>
   last (points (mousemove now e s)) = \<lparr>px = clientX e, py = clientY e\<rparr> \<and>
   canvas_width (mousemove now e s) = canvas_width s \<and>
   canvas_height (mousemove now e s) = canvas_height s"
proof -
  have "points s \<noteq> []" if "\<not> length (points s) < maxTrail"
    using that by (auto simp: maxTrail_def)
  then show ?thesis
    by (auto simp add: mousemove_def Let_def)
qed

text \<open>
  Claim C10. \<^verbatim>\<open>draw\<close> never changes \<^verbatim>\<open>lastMove\<close> (nor the canvas size). It changes
  \<^verbatim>\<open>points\<close> only when the buffer holds at least two points and the fade progress has
  reached 1, and then empties it. With fewer than two points the state is unchanged; so
  a buffer of exactly one point survives any sequence of frames, whatever their times.
\<close>

theorem draw_frame:
  "lastMove (fst (draw now s)) = lastMove s \<and>
   canvas_width (fst (draw now s)) = canvas_width s \<and>
   canvas_height (fst (draw now s)) = canvas_height s \<and>
   points (fst (draw now s)) =
     (if 2 \<le> length (points s) \<and> 1 \<le> fadeProgress (now - lastMove s)
      then [] else points s) \<and>
   (length (points s) < 2 \<longrightarrow> fst (draw now s) = s) \<and>
   (length (points s) = 1 \<longrightarrow> draws nows s = s)"
  by (simp add: draw_def Let_def draws_short)

text \<open>
  A buffer of one point, with frames 351 ms, one second and one day after the move.
\<close>

theorem draw_frame_witness:
  "length (points \<lparr>canvas_width = 800, canvas_height = 600,
      points = [\<lparr>px = 3, py = 4\<rparr>], lastMove = 0\<rparr>) = 1 \<and>
   draws [351, 1000, 86400000] \<lparr>canvas_width = 800, canvas_height = 600,
      points = [\<lparr>px = 3, py = 4\<rparr>], lastMove = 0\<rparr> =
     \<lparr>canvas_width = 800, canvas_height = 600,
      points = [\<lparr>px = 3, py = 4\<rparr>], lastMove = 0\<rparr>"
  using draw_frame [of 351 "\<lparr>canvas_width = 800, canvas_height = 600,
      points = [\<lparr>px = 3, py = 4\<rparr>], lastMove = 0\<rparr>" "[351, 1000, 86400000]"]
  by (simp add: draw_def)

end
